theory Spec2Isabelle
  imports Complex_Main
begin

section \<open>image2svg: raster image to hatched strokes and G-code\<close>

text \<open>
  A shallow embedding of \<^verbatim>\<open>image2svg.py\<close>: the two draw predicates
  \<^verbatim>\<open>needLineX\<close> and \<^verbatim>\<open>needLineY\<close>, the G-code formatters
  \<^verbatim>\<open>MOVE_TO\<close> and \<^verbatim>\<open>BURN_TO\<close>, the stroke emitter
  \<^verbatim>\<open>svgPrint\<close>, the scan loop \<^verbatim>\<open>generateVectors\<close> and the two
  passes of \<^verbatim>\<open>main\<close>.

  Modelling decisions.
  \<^item> Pixel values, pixel coordinates and row numbers are Python integers: \<open>int\<close>.
    Loop indices produced by \<^verbatim>\<open>enumerate\<close> are \<open>nat\<close> and are converted
    with \<open>int\<close> where the source passes them on. For pixel values in \<open>0..255\<close>
    none of the expressions of \<^verbatim>\<open>svgPrint\<close> leaves \<open>0..255\<close>, so the 8-bit
    element type of the array never wraps.
  \<^item> Python floats are modelled by \<open>real\<close>: the rounding of a product to the
    nearest double is not modelled. Every float of the program is a pixel
    coordinate times \<^verbatim>\<open>PIXEL_SIZE\<close>, or a bucket number times a step.
  \<^item> The two output files are lists, appended at the end. A line of the SVG
    file is a record of the values the source formats into the
    \<^verbatim>\<open><line .../>\<close> element; a line of the G-code file is a value of the
    datatype \<open>gcode\<close>, one constructor per format string, holding the numbers
    passed to the format (\<^verbatim>\<open>%.3f\<close> prints them with three decimals).
  \<^item> The module globals (\<^verbatim>\<open>S_OR_F\<close>, \<^verbatim>\<open>last_a\<close> .. \<^verbatim>\<open>last_d\<close>
    and the two files) are the record \<open>globals\<close>, passed in and returned.
  \<^item> A raised exception is a value of \<open>py_error\<close>, returned together with the
    globals as they are when it is raised (what was written stays written).
\<close>

subsection \<open>Module constants\<close>

definition shade1 :: int where "shade1 = 0"
definition shade2 :: int where "shade2 = 50"
definition shade3 :: int where "shade3 = 100"
definition shade4 :: int where "shade4 = 158"
definition shade5 :: int where "shade5 = 212"
definition shade6 :: int where "shade6 = 240"

definition PIXEL_SIZE :: real where "PIXEL_SIZE = 1 / (200 / 25.4)"

definition POWER_MIN :: int where "POWER_MIN = 0"
definition POWER_MAX :: int where "POWER_MAX = 15"
definition FEED_SPEED :: int where "FEED_SPEED = 300"
definition FEED_SPEED_MAX :: int where "FEED_SPEED_MAX = 800"

definition POWER_STEP :: real where
  "POWER_STEP = real_of_int (POWER_MAX - POWER_MIN) / 6"

definition SPEED_STEP :: real where
  "SPEED_STEP = real_of_int (FEED_SPEED_MAX - FEED_SPEED) / 6"

subsection \<open>Output records and module globals\<close>

text \<open>
  \<open>MOVE_GCODE x y\<close> is \<^verbatim>\<open>"G0 X%.3f Y%.3f"\<close>, \<open>BURN_GCODE s x y\<close> is
  \<^verbatim>\<open>"S%.3f\nG1 X%.3f Y%.3f"\<close> and \<open>BURN_GCODE_F x y f\<close> is
  \<^verbatim>\<open>"G1 X%.3f Y%.3f F%d"\<close>, with the arguments in the order of the format.
\<close>

datatype gcode =
    MOVE_GCODE real real
  | BURN_GCODE real real real
  | BURN_GCODE_F real real int

text \<open>The position a G-code line moves to.\<close>

fun gcode_xy :: "gcode \<Rightarrow> real \<times> real" where
  "gcode_xy (MOVE_GCODE x y) = (x, y)"
| "gcode_xy (BURN_GCODE s x y) = (x, y)"
| "gcode_xy (BURN_GCODE_F x y f) = (x, y)"

text \<open>
  One \<^verbatim>\<open><line/>\<close> element: the two attribute prefixes \<^verbatim>\<open>axes[0]\<close> and
  \<^verbatim>\<open>axes[1]\<close>, the four coordinates in the order written, and the grey
  value of the stroke colour.
\<close>

record svg_line =
  along :: string
  across :: string
  pos1 :: int
  line1 :: int
  pos2 :: int
  line2 :: int
  stroke :: int

record globals =
  S_OR_F :: int
  last_a :: real
  last_b :: real
  last_c :: real
  last_d :: real
  svgFile :: "svg_line list"
  gcodeFile :: "gcode list"

datatype py_error = UnboundLocalError | IndexError

subsection \<open>The G-code formatters\<close>

text \<open>\<^verbatim>\<open>'%d' % v\<close> for a float \<open>v\<close> drops the fraction.\<close>

definition format_d :: "real \<Rightarrow> int" where
  "format_d v = (if v < 0 then \<lceil>v\<rceil> else \<lfloor>v\<rfloor>)"

definition MOVE_TO :: "real \<Rightarrow> real \<Rightarrow> gcode" where
  "MOVE_TO x y =
     (let x = (if x < 0.001 then 0 else x);
          y = (if y < 0.001 then 0 else y)
      in MOVE_GCODE x y)"

text \<open>\<^verbatim>\<open>BURN_TO\<close> reads the global \<^verbatim>\<open>S_OR_F\<close>: it is the first argument here.\<close>

definition BURN_TO :: "int \<Rightarrow> real \<Rightarrow> real \<Rightarrow> real \<Rightarrow> gcode" where
  "BURN_TO s_or_f x y val =
     (let x = (if x < 0.001 then 0 else x);
          y = (if y < 0.001 then 0 else y)
      in if s_or_f = 1 then BURN_GCODE_F x y (format_d val)
         else BURN_GCODE val x y)"

subsection \<open>The draw predicates\<close>

definition needLineX :: "int \<Rightarrow> nat \<Rightarrow> bool" where
  "needLineX val rowIndex =
     (if rowIndex mod 2 = 0 \<and> val \<le> shade1 then True
      else if rowIndex mod 4 = 0 \<and> val \<le> shade3 then True
      else if rowIndex mod 8 = 0 \<and> val \<le> shade5 then True
      else False)"

definition needLineY :: "int \<Rightarrow> nat \<Rightarrow> bool" where
  "needLineY val rowIndex =
     (if rowIndex mod 2 = 0 \<and> val \<le> shade1 then False
      else if rowIndex mod 4 = 0 \<and> val \<le> shade2 then True
      else if rowIndex mod 4 = 0 \<and> val \<le> shade3 then False
      else if rowIndex mod 8 = 0 \<and> val \<le> shade4 then True
      else False)"

subsection \<open>The stroke emitter\<close>

text \<open>
  \<^verbatim>\<open>svgPrint(start, stop, rowNum, invert, axes, axisDimension, val)\<close>.
  \<open>axes\<close> is the two-element list of the callers, as a pair. The two
  \<^verbatim>\<open>if axes[0]==...\<close> statements are separate in the source; the globals
  \<^verbatim>\<open>last_c\<close> and \<^verbatim>\<open>last_d\<close> they read are assigned only after both.
\<close>

definition svgPrint ::
  "int \<Rightarrow> int \<Rightarrow> int \<Rightarrow> bool \<Rightarrow> string \<times> string \<Rightarrow> int \<Rightarrow> int \<Rightarrow> globals \<Rightarrow> globals" where
  "svgPrint start stop rowNum invert axes axisDimension val0 g =
     (let val = (if val0 \<noteq> 0 then (val0 div (256 div 6)) * (256 div 6) else val0);
          ln = \<lparr> along = fst axes, across = snd axes,
                 pos1 = (if invert then axisDimension - start else start),
                 line1 = rowNum,
                 pos2 = (if invert then axisDimension - stop else stop),
                 line2 = rowNum,
                 stroke = val \<rparr>;
          sval = (if S_OR_F g = 1
                  then real_of_int (val div (256 div 6)) * SPEED_STEP + real_of_int FEED_SPEED
                  else real_of_int ((255 - val) div (256 div 6)) * POWER_STEP);
          a = real_of_int (if invert then axisDimension - start else start) * PIXEL_SIZE;
          c = real_of_int (if invert then axisDimension - stop else stop) * PIXEL_SIZE;
          b = real_of_int rowNum * PIXEL_SIZE;
          d = b;
          outx = (if fst axes = ''x''
                  then (if a \<noteq> last_c g \<or> b \<noteq> last_d g then [MOVE_TO a b] else [])
                       @ [BURN_TO (S_OR_F g) c d sval]
                  else []);
          outy = (if fst axes = ''y''
                  then (if a \<noteq> last_c g \<or> b \<noteq> last_d g then [MOVE_TO b a] else [])
                       @ [BURN_TO (S_OR_F g) d c sval]
                  else [])
      in g \<lparr> svgFile := svgFile g @ [ln],
             gcodeFile := gcodeFile g @ outx @ outy,
             last_a := a, last_b := b, last_c := c, last_d := d \<rparr>)"

subsection \<open>The scan loop\<close>

text \<open>
  The body of the inner loop \<^verbatim>\<open>for index, pixel in enumerate(row)\<close>, on the
  locals \<^verbatim>\<open>firstEndpoint\<close> and \<^verbatim>\<open>rowDrawn\<close> and the globals.
  \<^verbatim>\<open>row[index-1]\<close> is read only when \<open>index > 0\<close>, so it is in range.
\<close>

definition pixelStep ::
  "(int \<Rightarrow> nat \<Rightarrow> bool) \<Rightarrow> string \<times> string \<Rightarrow> int \<Rightarrow> nat \<Rightarrow> bool \<Rightarrow> int list
     \<Rightarrow> nat \<times> int \<Rightarrow> nat \<times> bool \<times> globals \<Rightarrow> nat \<times> bool \<times> globals" where
  "pixelStep needLine axes axisDimension rowIndex invert row ip st =
     (case ip of (index, pixel) \<Rightarrow>
      case st of (firstEndpoint, rowDrawn, g) \<Rightarrow>
        if index > 0 \<and> pixel \<noteq> row ! (index - 1) then
          (if needLine (row ! (index - 1)) rowIndex
           then (index, True,
                 svgPrint (int firstEndpoint) (int index) (int rowIndex) invert axes
                   axisDimension (row ! (index - 1)) g)
           else (index, rowDrawn, g))
        else (firstEndpoint, rowDrawn, g))"

definition rowLoop ::
  "(int \<Rightarrow> nat \<Rightarrow> bool) \<Rightarrow> string \<times> string \<Rightarrow> int \<Rightarrow> nat \<Rightarrow> bool \<Rightarrow> int list
     \<Rightarrow> globals \<Rightarrow> nat \<times> bool \<times> globals" where
  "rowLoop needLine axes axisDimension rowIndex invert row g =
     fold (pixelStep needLine axes axisDimension rowIndex invert row)
       (enumerate 0 row) (0, False, g)"

text \<open>
  The body of the outer loop \<^verbatim>\<open>for rowIndex, row in enumerate(img)\<close>. Its
  state is the local \<^verbatim>\<open>invert\<close>, the local \<^verbatim>\<open>index\<close> (the inner loop
  variable, which the statement after the inner loop reads: \<open>None\<close> while it was
  never assigned) and the globals. Reading \<^verbatim>\<open>index\<close> before any assignment
  raises \<^verbatim>\<open>UnboundLocalError\<close>; \<^verbatim>\<open>row[index]\<close> out of range raises
  \<^verbatim>\<open>IndexError\<close>. \<^verbatim>\<open>np.flipud\<close> of a one-dimensional row is its reversal.
\<close>

definition rowBody ::
  "(int \<Rightarrow> nat \<Rightarrow> bool) \<Rightarrow> string \<times> string \<Rightarrow> int \<Rightarrow> nat \<times> int list
     \<Rightarrow> bool \<times> nat option \<times> globals \<Rightarrow> py_error option \<times> bool \<times> nat option \<times> globals" where
  "rowBody needLine axes axisDimension ir st =
     (case ir of (rowIndex, row0) \<Rightarrow>
      case st of (invert, index0, g0) \<Rightarrow>
        let row = (if invert then rev row0 else row0) in
        case rowLoop needLine axes axisDimension rowIndex invert row g0 of
          (firstEndpoint, rowDrawn, g1) \<Rightarrow>
            let index = (if row = [] then index0 else Some (length row - 1)) in
            (case index of
               None \<Rightarrow> (Some UnboundLocalError, invert, index, g1)
             | Some i \<Rightarrow>
                 if length row \<le> i then (Some IndexError, invert, index, g1)
                 else if needLine (row ! i) rowIndex
                 then (None, \<not> invert, index,
                       svgPrint (int firstEndpoint) (int i) (int rowIndex) invert axes
                         axisDimension (row ! i) g1)
                 else (None, (if rowDrawn then \<not> invert else invert), index, g1)))"

fun rowsLoop ::
  "(int \<Rightarrow> nat \<Rightarrow> bool) \<Rightarrow> string \<times> string \<Rightarrow> int \<Rightarrow> (nat \<times> int list) list
     \<Rightarrow> bool \<times> nat option \<times> globals \<Rightarrow> py_error option \<times> bool \<times> nat option \<times> globals" where
  "rowsLoop needLine axes axisDimension [] st = (None, st)"
| "rowsLoop needLine axes axisDimension (ir # rest) st =
     (case rowBody needLine axes axisDimension ir st of
        (Some e, st') \<Rightarrow> (Some e, st')
      | (None, st') \<Rightarrow> rowsLoop needLine axes axisDimension rest st')"

text \<open>\<^verbatim>\<open>generateVectors(img, needLine, axes, axisDimension)\<close>.\<close>

definition generateVectors ::
  "int list list \<Rightarrow> (int \<Rightarrow> nat \<Rightarrow> bool) \<Rightarrow> string \<times> string \<Rightarrow> int \<Rightarrow> globals
     \<Rightarrow> py_error option \<times> globals" where
  "generateVectors img needLine axes axisDimension g =
     (case rowsLoop needLine axes axisDimension (enumerate 0 img) (False, None, g) of
        (e, invert, index, g') \<Rightarrow> (e, g'))"

subsection \<open>The two passes of main\<close>

text \<open>
  A two-dimensional array: its shape and its rows. \<^verbatim>\<open>np.swapaxes(image, 0, 1)\<close>
  of an array of shape \<open>(h, w)\<close> has shape \<open>(w, h)\<close>, also when \<open>h\<close> or \<open>w\<close> is 0.
\<close>

record ndarray =
  shape0 :: nat
  shape1 :: nat
  rows :: "int list list"

definition wellformed :: "ndarray \<Rightarrow> bool" where
  "wellformed im =
     (length (rows im) = shape0 im \<and> list_all (\<lambda>r. length r = shape1 im) (rows im))"

definition swapaxes :: "ndarray \<Rightarrow> ndarray" where
  "swapaxes im =
     \<lparr> shape0 = shape1 im, shape1 = shape0 im,
       rows = map (\<lambda>j. map (\<lambda>r. r ! j) (rows im)) [0..<shape1 im] \<rparr>"

text \<open>The module globals when \<^verbatim>\<open>main\<close> has set the mode and opened the files.\<close>

definition init_globals :: "int \<Rightarrow> globals" where
  "init_globals s_or_f =
     \<lparr> S_OR_F = (if s_or_f = 1 then 1 else 0),
       last_a = 0, last_b = 0, last_c = 0, last_d = 0,
       svgFile = [], gcodeFile = [] \<rparr>"

text \<open>
  \<^verbatim>\<open>main\<close> from the array \<^verbatim>\<open>np.asarray(image)\<close> on (the argument
  \<open>img\<close>): the pass over the rows with \<^verbatim>\<open>needLineX\<close>, then the pass over the columns with \<^verbatim>\<open>needLineY\<close>.
  \<open>width\<close> and \<open>height\<close> are the image size, the shape of the array. Opening
  and decoding the image, and the fixed header and footer lines of the two
  files, are not part of the model; an exception of the first pass ends the
  program before the second.
\<close>

definition main :: "ndarray \<Rightarrow> int \<Rightarrow> py_error option \<times> globals" where
  "main img s_or_f =
     (let width = int (shape1 img);
          height = int (shape0 img)
      in case generateVectors (rows img) needLineX (''x'', ''y'') width (init_globals s_or_f) of
           (Some e, g1) \<Rightarrow> (Some e, g1)
         | (None, g1) \<Rightarrow>
             generateVectors (rows (swapaxes img)) needLineY (''y'', ''x'') height g1)"


subsection \<open>Notions of the specification\<close>

text \<open>
  The periodicity class of a line index: 3 for a multiple of 8, 2 for another
  multiple of 4, 1 for another even index, 0 for an odd one.
\<close>

definition periodicity :: "nat \<Rightarrow> nat" where
  "periodicity i =
     (if i mod 8 = 0 then 3 else if i mod 4 = 0 then 2 else if i mod 2 = 0 then 1 else 0)"

text \<open>
  The quantization as the specification words it: six buckets of equal width
  \<open>256 / 6\<close> over \<open>0..255\<close>, the bucket index \<open>floor (v / (256 / 6))\<close>, and
  the grey value \<open>index * width\<close>.
\<close>

definition spec_bucket :: "int \<Rightarrow> int" where
  "spec_bucket v = \<lfloor>real_of_int v / (256 / 6)\<rfloor>"

definition spec_darkness :: "int \<Rightarrow> real" where
  "spec_darkness v = real_of_int (spec_bucket v) * (256 / 6)"

text \<open>
  A pixel coordinate in physical units, and the snap to zero that
  \<^verbatim>\<open>MOVE_TO\<close> and \<^verbatim>\<open>BURN_TO\<close> apply to each coordinate before writing it.
\<close>

definition scaled :: "int \<Rightarrow> real" where
  "scaled p = real_of_int p * PIXEL_SIZE"

definition snapped :: "real \<Rightarrow> real" where
  "snapped z = (if z < 0.001 then 0 else z)"

text \<open>What a step appended to the two files, given the globals before and after.\<close>

definition written_svg :: "globals \<Rightarrow> globals \<Rightarrow> svg_line list" where
  "written_svg g g' = drop (length (svgFile g)) (svgFile g')"

definition written_gcode :: "globals \<Rightarrow> globals \<Rightarrow> gcode list" where
  "written_gcode g g' = drop (length (gcodeFile g)) (gcodeFile g')"

text \<open>The globals and the \<^verbatim>\<open>invert\<close> flag after one scanline.\<close>

definition globals_of :: "py_error option \<times> bool \<times> nat option \<times> globals \<Rightarrow> globals" where
  "globals_of r = snd (snd (snd r))"

definition flag_of :: "py_error option \<times> bool \<times> nat option \<times> globals \<Rightarrow> bool" where
  "flag_of r = fst (snd r)"

text \<open>A stroke mirrored around the dimension \<open>d\<close> of its line, and its two ends.\<close>

definition mirror_line :: "int \<Rightarrow> svg_line \<Rightarrow> svg_line" where
  "mirror_line d l = l \<lparr> pos1 := d - pos1 l, pos2 := d - pos2 l \<rparr>"

definition endpoints :: "svg_line \<Rightarrow> int \<times> int" where
  "endpoints l = (pos1 l, pos2 l)"

text \<open>
  Two states of the inner loop that agree on the locals, and whose SVG files
  are \<open>base\<close> followed by the same strokes, mirrored in the first.
\<close>

definition mirrored ::
  "svg_line list \<Rightarrow> int \<Rightarrow> nat \<times> bool \<times> globals \<Rightarrow> nat \<times> bool \<times> globals \<Rightarrow> bool" where
  "mirrored base d s t =
     (fst s = fst t \<and> fst (snd s) = fst (snd t) \<and>
      (\<exists>new. svgFile (snd (snd s)) = base @ map (mirror_line d) new
             \<and> svgFile (snd (snd t)) = base @ new))"

section \<open>Running the model on a concrete input\<close>

lemmas run_defs =
  main_def generateVectors_def rowBody_def rowLoop_def pixelStep_def svgPrint_def
  MOVE_TO_def BURN_TO_def init_globals_def swapaxes_def wellformed_def
  needLineX_def needLineY_def
  shade1_def shade2_def shade3_def shade4_def shade5_def PIXEL_SIZE_def POWER_STEP_def
  POWER_MAX_def POWER_MIN_def Let_def endpoints_def globals_of_def written_svg_def
  mirror_line_def upt_conv_Cons

section \<open>The draw predicates\<close>

lemma needLineX_iff:
  "needLineX v i \<longleftrightarrow>
     (i mod 2 = 0 \<and> v \<le> shade1) \<or> (i mod 4 = 0 \<and> v \<le> shade3) \<or> (i mod 8 = 0 \<and> v \<le> shade5)"
  by (simp add: needLineX_def)

lemma periodicity_ge1: "1 \<le> periodicity i \<longleftrightarrow> i mod 2 = 0"
proof -
  have a: "i mod 4 = 0 \<longrightarrow> i mod 2 = 0" by presburger
  have b: "i mod 8 = 0 \<longrightarrow> i mod 2 = 0" by presburger
  show ?thesis
    using a b unfolding periodicity_def
    by (cases "i mod 8 = 0"; cases "i mod 4 = 0"; cases "i mod 2 = 0"; simp)
qed

lemma periodicity_ge2: "2 \<le> periodicity i \<longleftrightarrow> i mod 4 = 0"
proof -
  have b: "i mod 8 = 0 \<longrightarrow> i mod 4 = 0" by presburger
  show ?thesis
    using b unfolding periodicity_def
    by (cases "i mod 8 = 0"; cases "i mod 4 = 0"; cases "i mod 2 = 0"; simp)
qed

lemma periodicity_ge3: "3 \<le> periodicity i \<longleftrightarrow> i mod 8 = 0"
  unfolding periodicity_def
  by (cases "i mod 8 = 0"; cases "i mod 4 = 0"; cases "i mod 2 = 0"; simp)

lemma needLineX_mono:
  assumes "needLineX v i" "v' \<le> v" "periodicity i \<le> periodicity i'"
  shows "needLineX v' i'"
proof -
  from assms(1) have
    "(i mod 2 = 0 \<and> v \<le> shade1) \<or> (i mod 4 = 0 \<and> v \<le> shade3) \<or> (i mod 8 = 0 \<and> v \<le> shade5)"
    by (simp only: needLineX_iff)
  then show ?thesis
  proof (elim disjE conjE)
    assume two: "i mod 2 = 0" "v \<le> shade1"
    then have "1 \<le> periodicity i" by (simp only: periodicity_ge1)
    with assms(3) have "1 \<le> periodicity i'" by linarith
    then have "i' mod 2 = 0" by (simp only: periodicity_ge1)
    moreover from two assms(2) have "v' \<le> shade1" by linarith
    ultimately have "i' mod 2 = 0 \<and> v' \<le> shade1" by (rule conjI)
    then show ?thesis unfolding needLineX_iff by (rule disjI1)
  next
    assume four: "i mod 4 = 0" "v \<le> shade3"
    then have "2 \<le> periodicity i" by (simp only: periodicity_ge2)
    with assms(3) have "2 \<le> periodicity i'" by linarith
    then have "i' mod 4 = 0" by (simp only: periodicity_ge2)
    moreover from four assms(2) have "v' \<le> shade3" by linarith
    ultimately have "i' mod 4 = 0 \<and> v' \<le> shade3" by (rule conjI)
    then show ?thesis unfolding needLineX_iff by (intro disjI2 disjI1)
  next
    assume eight: "i mod 8 = 0" "v \<le> shade5"
    then have "3 \<le> periodicity i" by (simp only: periodicity_ge3)
    with assms(3) have "3 \<le> periodicity i'" by linarith
    then have "i' mod 8 = 0" by (simp only: periodicity_ge3)
    moreover from eight assms(2) have "v' \<le> shade5" by linarith
    ultimately have "i' mod 8 = 0 \<and> v' \<le> shade5" by (rule conjI)
    then show ?thesis unfolding needLineX_iff by (intro disjI2)
  qed
qed

text \<open>
  Claim C5. \<^verbatim>\<open>needLineX\<close> accepts a shade and a line index exactly when the
  index is even and the shade is at most \<open>shade1\<close>, or the index is a multiple
  of 4 and the shade is at most \<open>shade3\<close>, or the index is a multiple of 8 and
  the shade is at most \<open>shade5\<close>. It is monotone: from an accepted pair, a
  shade that is no larger together with a line index whose periodicity class
  is no shallower is accepted too.
\<close>

theorem needLineX_bands:
  "(needLineX v i \<longleftrightarrow>
      (i mod 2 = 0 \<and> v \<le> shade1) \<or> (i mod 4 = 0 \<and> v \<le> shade3) \<or> (i mod 8 = 0 \<and> v \<le> shade5))
   \<and> (\<forall>v' i'. needLineX v i \<and> v' \<le> v \<and> periodicity i \<le> periodicity i' \<longrightarrow> needLineX v' i')"
proof (intro conjI allI impI)
  show "needLineX v i \<longleftrightarrow>
      (i mod 2 = 0 \<and> v \<le> shade1) \<or> (i mod 4 = 0 \<and> v \<le> shade3) \<or> (i mod 8 = 0 \<and> v \<le> shade5)"
    by (rule needLineX_iff)
next
  fix v' i'
  assume h: "needLineX v i \<and> v' \<le> v \<and> periodicity i \<le> periodicity i'"
  then have a: "needLineX v i" and b: "v' \<le> v" and c: "periodicity i \<le> periodicity i'"
    by simp_all
  show "needLineX v' i'" by (rule needLineX_mono [OF a b c])
qed

text \<open>
  Witness for C5: shade 100 is accepted on line 4; shade 0 on line 8 is darker
  and of a deeper class, and is accepted.
\<close>

theorem needLineX_bands_witness:
  "needLineX 100 4 \<and> (0::int) \<le> 100 \<and> periodicity 4 \<le> periodicity 8 \<and> needLineX 0 8"
proof -
  have a: "needLineX 100 4" by (simp add: needLineX_def shade1_def shade3_def)
  have p: "periodicity 4 \<le> periodicity 8" by (simp add: periodicity_def)
  have z: "(0::int) \<le> 100" by simp
  from needLineX_bands [of 100 4] have
    "needLineX 100 4 \<and> (0::int) \<le> 100 \<and> periodicity 4 \<le> periodicity 8 \<longrightarrow> needLineX 0 8"
    by (elim conjE allE)
  with a p z show ?thesis by (intro conjI) (assumption | simp)+
qed

lemma needLineY_chain:
  fixes v :: int
  assumes "P4 \<longrightarrow> P2" "P8 \<longrightarrow> P4"
  shows "(if P2 \<and> v \<le> 0 then False
          else if P4 \<and> v \<le> 50 then True
          else if P4 \<and> v \<le> 100 then False
          else if P8 \<and> v \<le> 158 then True
          else False)
         \<longleftrightarrow> (P4 \<and> 0 < v \<and> v \<le> 50) \<or> (P8 \<and> 100 < v \<and> v \<le> 158)"
  using assms by (cases P2; cases P4; cases P8; simp; linarith)

lemma needLineY_iff:
  "needLineY v i \<longleftrightarrow>
     (i mod 4 = 0 \<and> shade1 < v \<and> v \<le> shade2) \<or> (i mod 8 = 0 \<and> shade3 < v \<and> v \<le> shade4)"
proof -
  have a: "i mod 4 = 0 \<longrightarrow> i mod 2 = 0" by presburger
  have b: "i mod 8 = 0 \<longrightarrow> i mod 4 = 0" by presburger
  show ?thesis
    unfolding needLineY_def shade1_def shade2_def shade3_def shade4_def
    by (rule needLineY_chain [OF a b])
qed

lemma needLine_overlap_chain:
  fixes v :: int
  assumes "P4 \<longrightarrow> P2" "P8 \<longrightarrow> P4"
  shows "(((P2 \<and> v \<le> 0) \<or> (P4 \<and> v \<le> 100) \<or> (P8 \<and> v \<le> 212))
          \<and> ((P4 \<and> 0 < v \<and> v \<le> 50) \<or> (P8 \<and> 100 < v \<and> v \<le> 158)))
         = ((P4 \<and> 0 < v \<and> v \<le> 50) \<or> (P8 \<and> 100 < v \<and> v \<le> 158))"
  using assms by (cases P2; cases P4; cases P8; simp; linarith)

text \<open>
  Claim C4, as the code has it. The claim says that \<^verbatim>\<open>needLineY\<close> is false
  wherever \<^verbatim>\<open>needLineX\<close> is true. The code cross-hatches two bands instead:
  both predicates accept exactly when the line index is a multiple of 4 and
  \<open>shade1 < v \<le> shade2\<close>, or the line index is a multiple of 8 and
  \<open>shade3 < v \<le> shade4\<close>. Everywhere else \<^verbatim>\<open>needLineY\<close> is false where
  \<^verbatim>\<open>needLineX\<close> is true.
\<close>

theorem needLine_overlap:
  "(needLineX v i \<and> needLineY v i) =
     ((i mod 4 = 0 \<and> shade1 < v \<and> v \<le> shade2) \<or> (i mod 8 = 0 \<and> shade3 < v \<and> v \<le> shade4))"
proof -
  have a: "i mod 4 = 0 \<longrightarrow> i mod 2 = 0" by presburger
  have b: "i mod 8 = 0 \<longrightarrow> i mod 4 = 0" by presburger
  show ?thesis
    unfolding needLineY_iff needLineX_iff shade1_def shade2_def shade3_def shade4_def shade5_def
    by (rule needLine_overlap_chain [OF a b])
qed

text \<open>
  Counterexample to C4 as stated: shade 50 on line 4 is accepted by both
  predicates.
\<close>

theorem needLine_both_accept: "needLineX 50 4 \<and> needLineY 50 4"
  by (simp add: needLineX_def needLineY_def shade1_def shade2_def shade3_def)

section \<open>The stroke emitter\<close>

lemma svgPrint_svgFile:
  "svgFile (svgPrint s e r iv ax d v g) =
     svgFile g @ [\<lparr> along = fst ax, across = snd ax,
                     pos1 = (if iv then d - s else s), line1 = r,
                     pos2 = (if iv then d - e else e), line2 = r,
                     stroke = (v div 42) * 42 \<rparr>]"
  by (simp add: svgPrint_def Let_def)

lemma MOVE_TO_xy: "gcode_xy (MOVE_TO x y) = (snapped x, snapped y)"
  by (simp add: MOVE_TO_def snapped_def Let_def)

lemma BURN_TO_xy: "gcode_xy (BURN_TO m x y s) = (snapped x, snapped y)"
  by (simp add: BURN_TO_def snapped_def Let_def)

lemma svgPrint_gcodeFile:
  "gcodeFile (svgPrint s e r iv ax d v g) =
     gcodeFile g @
     (let val = (v div 42) * 42;
          sval = (if S_OR_F g = 1
                  then real_of_int (val div 42) * SPEED_STEP + real_of_int FEED_SPEED
                  else real_of_int ((255 - val) div 42) * POWER_STEP);
          a = real_of_int (if iv then d - s else s) * PIXEL_SIZE;
          c = real_of_int (if iv then d - e else e) * PIXEL_SIZE;
          b = real_of_int r * PIXEL_SIZE
      in (if fst ax = ''x''
          then (if a \<noteq> last_c g \<or> b \<noteq> last_d g then [MOVE_TO a b] else [])
               @ [BURN_TO (S_OR_F g) c b sval]
          else [])
         @ (if fst ax = ''y''
            then (if a \<noteq> last_c g \<or> b \<noteq> last_d g then [MOVE_TO b a] else [])
                 @ [BURN_TO (S_OR_F g) b c sval]
            else []))"
  by (simp add: svgPrint_def Let_def)

lemma scaled_nonneg:
  "0 \<le> p \<Longrightarrow> snapped (real_of_int p * PIXEL_SIZE) = real_of_int p * PIXEL_SIZE"
proof (cases "p = 0")
  case True
  then show ?thesis by (simp add: snapped_def)
next
  case False
  assume "0 \<le> p"
  with False have "1 \<le> p" by simp
  then have "1 \<le> real_of_int p" by simp
  then have "0.127 \<le> real_of_int p * 0.127" by simp
  then have "\<not> real_of_int p * PIXEL_SIZE < 0.001" by (simp add: PIXEL_SIZE_def)
  then show ?thesis by (simp add: snapped_def)
qed

text \<open>
  Claim C8, as the code has it. The bucket width is the integer
  \<open>256 div 6 = 42\<close>, not \<open>256 / 6\<close>: the grey value of the stroke that
  \<^verbatim>\<open>svgPrint\<close> records for shade \<open>v\<close> is \<open>(v div 42) * 42\<close>. For \<open>v\<close> in
  \<open>0..255\<close> the bucket index \<open>v div 42\<close> lies in \<open>0..6\<close> (seven buckets, the
  last one \<open>252..255\<close>); for a shade that one of the two draw predicates
  accepts it lies in \<open>0..5\<close>.
\<close>

theorem quantized_stroke:
  "stroke (last (svgFile (svgPrint start stop rowNum invert axes axisDimension v g))) = (v div 42) * 42
   \<and> (0 \<le> v \<and> v \<le> 255 \<longrightarrow> 0 \<le> v div 42 \<and> v div 42 \<le> 6)
   \<and> (0 \<le> v \<and> (needLineX v i \<or> needLineY v i) \<longrightarrow> 0 \<le> v div 42 \<and> v div 42 \<le> 5)"
proof (intro conjI impI)
  show "stroke (last (svgFile (svgPrint start stop rowNum invert axes axisDimension v g))) = (v div 42) * 42"
    by (simp add: svgPrint_svgFile)
next
  assume "0 \<le> v \<and> v \<le> 255"
  then show "0 \<le> v div 42" "v div 42 \<le> 6" by arith+
next
  assume h: "0 \<le> v \<and> (needLineX v i \<or> needLineY v i)"
  then have "v \<le> 212"
    by (auto simp: needLineX_iff needLineY_iff shade1_def shade2_def shade3_def shade4_def shade5_def)
  with h show "0 \<le> v div 42" "v div 42 \<le> 5" by arith+
qed

text \<open>
  Witness for C8: shade 212 on line 0 is accepted, lies in \<open>0..255\<close>, and is
  recorded as \<open>5 * 42 = 210\<close>.
\<close>

theorem quantized_stroke_witness:
  "(0::int) \<le> 212 \<and> (212::int) \<le> 255 \<and> needLineX 212 0
   \<and> stroke (last (svgFile (svgPrint 0 1 0 False (''x'', ''y'') 1 212 (init_globals 0)))) = 210
   \<and> (212::int) div 42 \<le> 5"
  using quantized_stroke [of 0 1 0 False "(''x'', ''y'')" 1 212 "init_globals 0" 0]
  by (simp add: needLineX_def shade1_def shade3_def shade5_def)

text \<open>
  Counterexample to C8 as stated: the accepted shade 212 is recorded as 210,
  bucket 5; with six buckets of width \<open>256 / 6\<close> it is in bucket 4, whose grey
  value is \<open>512 / 3\<close>.
\<close>

theorem quantized_stroke_counterexample:
  "needLineX 212 0
   \<and> stroke (last (svgFile (svgPrint 0 1 0 False (''x'', ''y'') 1 212 (init_globals 0)))) = 210
   \<and> spec_bucket 212 = 4 \<and> spec_darkness 212 = 512 / 3"
  by (simp add: svgPrint_svgFile needLineX_def shade1_def shade3_def shade5_def
      spec_darkness_def spec_bucket_def)

text \<open>
  Claim C9. The positions of the G-code lines that \<^verbatim>\<open>svgPrint\<close> writes are
  the pixel coordinates of the stroke (mirrored when \<open>invert\<close> is set) and the
  row number, each multiplied by \<^verbatim>\<open>PIXEL_SIZE\<close> and snapped: a value below
  \<open>0.001\<close> is written as 0, any other value as it is. For a pixel coordinate
  that is not negative the written value is the coordinate times
  \<^verbatim>\<open>PIXEL_SIZE\<close>. With \<^verbatim>\<open>axes[0] = 'x'\<close> the pair is (coordinate, row), with
  \<^verbatim>\<open>axes[0] = 'y'\<close> it is (row, coordinate).
\<close>

theorem scaled_coordinates:
  "(fst axes = ''x'' \<longrightarrow>
      map gcode_xy (written_gcode g (svgPrint start stop rowNum invert axes axisDimension v g)) =
        (if scaled (if invert then axisDimension - start else start) \<noteq> last_c g
            \<or> scaled rowNum \<noteq> last_d g
         then [(snapped (scaled (if invert then axisDimension - start else start)),
                snapped (scaled rowNum))]
         else [])
        @ [(snapped (scaled (if invert then axisDimension - stop else stop)),
            snapped (scaled rowNum))])
   \<and> (fst axes = ''y'' \<longrightarrow>
      map gcode_xy (written_gcode g (svgPrint start stop rowNum invert axes axisDimension v g)) =
        (if scaled (if invert then axisDimension - start else start) \<noteq> last_c g
            \<or> scaled rowNum \<noteq> last_d g
         then [(snapped (scaled rowNum),
                snapped (scaled (if invert then axisDimension - start else start)))]
         else [])
        @ [(snapped (scaled rowNum),
            snapped (scaled (if invert then axisDimension - stop else stop)))])
   \<and> (z < 0.001 \<longrightarrow> snapped z = 0)
   \<and> (0.001 \<le> z \<longrightarrow> snapped z = z)
   \<and> (0 \<le> p \<longrightarrow> snapped (scaled p) = real_of_int p * PIXEL_SIZE)"
proof (intro conjI impI)
  assume x: "fst axes = ''x''"
  then show "map gcode_xy (written_gcode g (svgPrint start stop rowNum invert axes axisDimension v g)) =
        (if scaled (if invert then axisDimension - start else start) \<noteq> last_c g
            \<or> scaled rowNum \<noteq> last_d g
         then [(snapped (scaled (if invert then axisDimension - start else start)),
                snapped (scaled rowNum))]
         else [])
        @ [(snapped (scaled (if invert then axisDimension - stop else stop)),
            snapped (scaled rowNum))]"
    by (simp add: written_gcode_def svgPrint_gcodeFile Let_def scaled_def MOVE_TO_xy BURN_TO_xy)
next
  assume y: "fst axes = ''y''"
  then show "map gcode_xy (written_gcode g (svgPrint start stop rowNum invert axes axisDimension v g)) =
        (if scaled (if invert then axisDimension - start else start) \<noteq> last_c g
            \<or> scaled rowNum \<noteq> last_d g
         then [(snapped (scaled rowNum),
                snapped (scaled (if invert then axisDimension - start else start)))]
         else [])
        @ [(snapped (scaled rowNum),
            snapped (scaled (if invert then axisDimension - stop else stop)))]"
    by (simp add: written_gcode_def svgPrint_gcodeFile Let_def scaled_def MOVE_TO_xy BURN_TO_xy)
next
  assume "z < 0.001"
  then show "snapped z = 0" by (simp add: snapped_def)
next
  assume "0.001 \<le> z"
  then show "snapped z = z" by (simp add: snapped_def)
next
  assume "0 \<le> p"
  then show "snapped (scaled p) = real_of_int p * PIXEL_SIZE"
    by (simp add: scaled_def scaled_nonneg)
qed

text \<open>
  Witness for C9: the stroke from pixel 0 to pixel 3 on row 2, drawn first,
  is a move to \<open>(0, 0.254)\<close> and a burn to \<open>(0.381, 0.254)\<close>.
\<close>

theorem scaled_coordinates_witness:
  "fst (''x'', ''y'') = ''x''
   \<and> map gcode_xy (written_gcode (init_globals 0)
        (svgPrint 0 3 2 False (''x'', ''y'') 4 0 (init_globals 0)))
      = [(0, 127 / 500), (381 / 1000, 127 / 500)]
   \<and> (0::int) \<le> 3 \<and> snapped (scaled 3) = 381 / 1000
   \<and> (0::real) < 0.001 \<and> snapped 0 = 0"
  using scaled_coordinates [of "(''x'', ''y'')" "init_globals 0" 0 3 2 False 4 0 0 3]
  by (simp add: scaled_def PIXEL_SIZE_def init_globals_def snapped_def)

section \<open>The scan loop\<close>

lemma fold_inv:
  assumes "P s" and "\<And>x s. P s \<Longrightarrow> P (f x s)"
  shows "P (fold f xs s)"
  using assms(1) by (induction xs arbitrary: s) (simp_all add: assms(2))

lemma fold_rel:
  assumes "R s t" and "\<And>x s t. R s t \<Longrightarrow> R (f x s) (h x t)"
  shows "R (fold f xs s) (fold h xs t)"
  using assms(1) by (induction xs arbitrary: s t) (simp_all add: assms(2))

text \<open>On a line where the predicate accepts no shade, the inner loop writes nothing.\<close>

lemma rowLoop_no_draw:
  assumes "\<forall>v. \<not> needLine v i"
  shows "\<exists>fe. rowLoop needLine ax d i iv row g = (fe, False, g)"
  unfolding rowLoop_def
proof (rule fold_inv)
  show "\<exists>fe. (0, False, g) = (fe, False, g)" by simp
next
  fix x :: "nat \<times> int" and s :: "nat \<times> bool \<times> globals"
  assume "\<exists>fe. s = (fe, False, g)"
  then obtain fe where s: "s = (fe, False, g)" ..
  show "\<exists>fe. pixelStep needLine ax d i iv row x s = (fe, False, g)"
    by (cases x) (simp add: pixelStep_def s assms)
qed

lemma rowBody_no_draw:
  assumes "\<forall>v. \<not> needLine v i"
  shows "globals_of (rowBody needLine ax d (i, row) (iv, idx, g)) = g"
proof -
  obtain fe where
    "rowLoop needLine ax d i iv (if iv then rev row else row) g = (fe, False, g)"
    using rowLoop_no_draw [where needLine = needLine and i = i, OF assms] by blast
  then show ?thesis
    by (simp add: rowBody_def globals_of_def Let_def assms split: option.split)
qed

text \<open>
  The inner loop only appends to the SVG file, and \<^verbatim>\<open>rowDrawn\<close> is set
  exactly when it appended something.
\<close>

lemma rowLoop_drawn:
  assumes "rowLoop needLine ax d i iv row g = (fe, rd, g1)"
  shows "length (svgFile g) \<le> length (svgFile g1)
         \<and> (rd \<longleftrightarrow> length (svgFile g) < length (svgFile g1))"
proof -
  let ?P = "\<lambda>s. case s of (fe, rd, g1) \<Rightarrow>
     length (svgFile g) \<le> length (svgFile g1) \<and> (rd \<longleftrightarrow> length (svgFile g) < length (svgFile g1))"
  have "?P (rowLoop needLine ax d i iv row g)"
    unfolding rowLoop_def
  proof (rule fold_inv)
    show "?P (0, False, g)" by simp
  next
    fix x :: "nat \<times> int" and s :: "nat \<times> bool \<times> globals"
    assume "?P s"
    then show "?P (pixelStep needLine ax d i iv row x s)"
      by (cases x; cases s) (auto simp: pixelStep_def svgPrint_svgFile)
  qed
  with assms show ?thesis by simp
qed

text \<open>
  Claim C3. \<^verbatim>\<open>generateVectors\<close> processes the first scanline with the flag
  \<^verbatim>\<open>invert\<close> false and every later scanline with the flag the scanline
  before it left. A non-empty scanline raises nothing, and the flag it leaves
  is the negation of the flag it found exactly when the scanline wrote at
  least one stroke; otherwise it is the flag it found.
\<close>

theorem serpentine_flag:
  "generateVectors (row # rest) needLine ax d g =
     (case rowBody needLine ax d (0, row) (False, None, g) of
        (Some e, st) \<Rightarrow> (Some e, snd (snd st))
      | (None, st) \<Rightarrow>
          (case rowsLoop needLine ax d (enumerate 1 rest) st of (e, st') \<Rightarrow> (e, snd (snd st'))))
   \<and> (row \<noteq> [] \<longrightarrow>
        fst (rowBody needLine ax d (i, row) (iv, idx, g)) = None
        \<and> flag_of (rowBody needLine ax d (i, row) (iv, idx, g)) =
            (if written_svg g (globals_of (rowBody needLine ax d (i, row) (iv, idx, g))) \<noteq> []
             then \<not> iv else iv))"
proof (intro conjI impI)
  show "generateVectors (row # rest) needLine ax d g =
     (case rowBody needLine ax d (0, row) (False, None, g) of
        (Some e, st) \<Rightarrow> (Some e, snd (snd st))
      | (None, st) \<Rightarrow>
          (case rowsLoop needLine ax d (enumerate 1 rest) st of (e, st') \<Rightarrow> (e, snd (snd st'))))"
    by (simp add: generateVectors_def split: prod.splits option.splits)
next
  assume ne: "row \<noteq> []"
  let ?row = "if iv then rev row else row"
  obtain fe rd g1 where loop: "rowLoop needLine ax d i iv ?row g = (fe, rd, g1)"
    by (cases "rowLoop needLine ax d i iv ?row g") auto
  from ne have ne': "?row \<noteq> []" by simp
  then have len: "\<not> length ?row \<le> length ?row - 1"
    by (cases ?row) simp_all
  show "fst (rowBody needLine ax d (i, row) (iv, idx, g)) = None"
    using ne' len loop by (simp add: rowBody_def Let_def)
  from rowLoop_drawn [OF loop]
  have d1: "length (svgFile g) \<le> length (svgFile g1)"
    and d2: "rd \<longleftrightarrow> length (svgFile g) < length (svgFile g1)" by simp_all
  show "flag_of (rowBody needLine ax d (i, row) (iv, idx, g)) =
            (if written_svg g (globals_of (rowBody needLine ax d (i, row) (iv, idx, g))) \<noteq> []
             then \<not> iv else iv)"
    using ne' len loop d1 d2
    by (simp add: rowBody_def Let_def flag_of_def globals_of_def written_svg_def svgPrint_svgFile)
qed

text \<open>
  Witness for C3: the scanline \<open>[0, 255]\<close> on line 0 writes a stroke and
  turns the flag from false to true; on line 1 it writes nothing and leaves
  the flag true.
\<close>

theorem serpentine_flag_witness:
  "[0, 255] \<noteq> ([]::int list)
   \<and> fst (rowBody needLineX (''x'', ''y'') 2 (0, [0, 255]) (False, None, init_globals 0)) = None
   \<and> written_svg (init_globals 0) (globals_of
        (rowBody needLineX (''x'', ''y'') 2 (0, [0, 255]) (False, None, init_globals 0))) \<noteq> []
   \<and> flag_of (rowBody needLineX (''x'', ''y'') 2 (0, [0, 255]) (False, None, init_globals 0)) = True
   \<and> written_svg (init_globals 0) (globals_of
        (rowBody needLineX (''x'', ''y'') 2 (1, [0, 255]) (True, None, init_globals 0))) = []
   \<and> flag_of (rowBody needLineX (''x'', ''y'') 2 (1, [0, 255]) (True, None, init_globals 0)) = True"
proof -
  have a: "written_svg (init_globals 0) (globals_of
        (rowBody needLineX (''x'', ''y'') 2 (0, [0, 255]) (False, None, init_globals 0))) \<noteq> []"
    by (simp add: run_defs)
  have b: "written_svg (init_globals 0) (globals_of
        (rowBody needLineX (''x'', ''y'') 2 (1, [0, 255]) (True, None, init_globals 0))) = []"
    by (simp add: run_defs)
  from serpentine_flag [where row = "[0, 255]" and i = 0 and iv = False and idx = None
      and g = "init_globals 0" and needLine = needLineX and ax = "(''x'', ''y'')" and d = 2]
    serpentine_flag [where row = "[0, 255]" and i = 1 and iv = True and idx = None
      and g = "init_globals 0" and needLine = needLineX and ax = "(''x'', ''y'')" and d = 2]
    a b
  show ?thesis by simp
qed

text \<open>
  Claim C10. \<^verbatim>\<open>needLineY\<close> accepts a shade and a line index exactly when the
  index is a multiple of 4 and \<open>shade1 < v \<le> shade2\<close>, or the index is a
  multiple of 8 and \<open>shade3 < v \<le> shade4\<close>. It accepts nothing on a line whose
  index is not a multiple of 4, and no shade \<open>v \<le> shade1\<close> on any line; a
  scanline whose index is not a multiple of 4 leaves the globals, and with
  them both files, as they were.
\<close>

theorem needLineY_bands:
  "(needLineY v i \<longleftrightarrow>
      (i mod 4 = 0 \<and> shade1 < v \<and> v \<le> shade2) \<or> (i mod 8 = 0 \<and> shade3 < v \<and> v \<le> shade4))
   \<and> (i mod 4 \<noteq> 0 \<longrightarrow> \<not> needLineY v i)
   \<and> (v \<le> shade1 \<longrightarrow> \<not> needLineY v i)
   \<and> (i mod 4 \<noteq> 0 \<longrightarrow> globals_of (rowBody needLineY ax d (i, row) (iv, idx, g)) = g)"
proof (intro conjI impI)
  show "needLineY v i \<longleftrightarrow>
      (i mod 4 = 0 \<and> shade1 < v \<and> v \<le> shade2) \<or> (i mod 8 = 0 \<and> shade3 < v \<and> v \<le> shade4)"
    by (rule needLineY_iff)
next
  have b: "i mod 8 = 0 \<longrightarrow> i mod 4 = 0" by presburger
  assume "i mod 4 \<noteq> 0"
  with b show "\<not> needLineY v i" by (simp add: needLineY_iff)
next
  assume "v \<le> shade1"
  then show "\<not> needLineY v i"
    by (simp add: needLineY_iff shade1_def shade3_def)
next
  have b: "i mod 8 = 0 \<longrightarrow> i mod 4 = 0" by presburger
  assume "i mod 4 \<noteq> 0"
  with b have "\<forall>v. \<not> needLineY v i" by (simp add: needLineY_iff)
  then show "globals_of (rowBody needLineY ax d (i, row) (iv, idx, g)) = g"
    by (rule rowBody_no_draw)
qed

text \<open>
  Witness for C10: shade 50 on line 4 and shade 158 on line 8 are accepted;
  line 2 is not a multiple of 4, shade 50 is rejected there and the scanline
  \<open>[50, 50, 158]\<close> writes nothing; shade 0 is rejected on line 4.
\<close>

theorem needLineY_bands_witness:
  "needLineY 50 4 \<and> needLineY 158 8 \<and> (2::nat) mod 4 \<noteq> 0 \<and> \<not> needLineY 50 2
   \<and> (0::int) \<le> shade1 \<and> \<not> needLineY 0 4
   \<and> globals_of (rowBody needLineY (''y'', ''x'') 3 (2, [50, 50, 158]) (False, None, init_globals 0))
       = init_globals 0"
  using needLineY_bands [of 50 4] needLineY_bands [of 158 8] needLineY_bands [of 0 4]
    needLineY_bands [of 50 2 "(''y'', ''x'')" 3 "[50, 50, 158]" False None "init_globals 0"]
  by (simp add: shade1_def shade2_def shade3_def shade4_def)

subsection \<open>Inverted scanlines\<close>

lemma mirror_svgPrint:
  "svgFile gT = base @ map (mirror_line d) new \<Longrightarrow> svgFile gF = base @ new \<Longrightarrow>
   svgFile (svgPrint s e r True ax d v gT) =
     base @ map (mirror_line d) (new @ [\<lparr> along = fst ax, across = snd ax,
                     pos1 = s, line1 = r, pos2 = e, line2 = r, stroke = (v div 42) * 42 \<rparr>])
   \<and> svgFile (svgPrint s e r False ax d v gF) =
     base @ (new @ [\<lparr> along = fst ax, across = snd ax,
                     pos1 = s, line1 = r, pos2 = e, line2 = r, stroke = (v div 42) * 42 \<rparr>])"
  by (simp add: svgPrint_svgFile mirror_line_def)

lemma mirrored_svgPrint:
  assumes "mirrored base d (fe, rd, gT) (fe', rd', gF)"
  shows "mirrored base d (k, b, svgPrint s e r True ax d v gT) (k, b, svgPrint s e r False ax d v gF)"
proof -
  from assms obtain new where
    n: "svgFile gT = base @ map (mirror_line d) new" "svgFile gF = base @ new"
    by (auto simp: mirrored_def)
  from mirror_svgPrint [OF n] show ?thesis
    unfolding mirrored_def by (intro conjI exI) (simp_all del: map_append)
qed

lemma mirrored_pixelStep:
  assumes "mirrored base d s t"
  shows "mirrored base d (pixelStep needLine ax d i True row x s)
           (pixelStep needLine ax d i False row x t)"
proof -
  obtain k p where x: "x = (k, p)" by (cases x)
  obtain fe rd gT where s: "s = (fe, rd, gT)" by (cases s)
  obtain fe' rd' gF where t: "t = (fe', rd', gF)" by (cases t)
  from assms have eq: "fe' = fe" "rd' = rd" by (simp_all add: mirrored_def s t)
  show ?thesis
  proof (cases "0 < k \<and> p \<noteq> row ! (k - 1) \<and> needLine (row ! (k - 1)) i")
    case True
    then show ?thesis
      using mirrored_svgPrint [OF assms [unfolded s t]]
      by (simp add: pixelStep_def x s t eq)
  next
    case False
    then show ?thesis
      using assms by (auto simp: pixelStep_def x s t eq mirrored_def)
  qed
qed

lemma mirrored_rowLoop:
  "mirrored (svgFile g) d (rowLoop needLine ax d i True row g) (rowLoop needLine ax d i False row g)"
  unfolding rowLoop_def
proof (rule fold_rel)
  show "mirrored (svgFile g) d (0, False, g) (0, False, g)"
    by (simp add: mirrored_def)
next
  fix x :: "nat \<times> int" and s t :: "nat \<times> bool \<times> globals"
  assume "mirrored (svgFile g) d s t"
  then show "mirrored (svgFile g) d (pixelStep needLine ax d i True row x s)
               (pixelStep needLine ax d i False row x t)"
    by (rule mirrored_pixelStep)
qed

text \<open>
  Claim C6, as the code has it. With the flag set the code does both things
  the claim calls equivalent: it reverses the samples before run detection
  and it mirrors every reported coordinate. The strokes a scanline writes
  with the flag set are the strokes that the reversed scanline writes with
  the flag clear, each mirrored around the dimension of the line.
\<close>

theorem inverted_scanline:
  "written_svg g (globals_of (rowBody needLine ax d (i, row) (True, idx, g))) =
     map (mirror_line d)
       (written_svg g (globals_of (rowBody needLine ax d (i, rev row) (False, idx, g))))"
proof -
  obtain fe rd gT where lt: "rowLoop needLine ax d i True (rev row) g = (fe, rd, gT)"
    by (cases "rowLoop needLine ax d i True (rev row) g") auto
  obtain fe' rd' gF where lf: "rowLoop needLine ax d i False (rev row) g = (fe', rd', gF)"
    by (cases "rowLoop needLine ax d i False (rev row) g") auto
  from mirrored_rowLoop [of g d needLine ax i "rev row"]
  have m: "mirrored (svgFile g) d (fe, rd, gT) (fe', rd', gF)" by (simp add: lt lf)
  then have eq: "fe' = fe" "rd' = rd" by (simp_all add: mirrored_def)
  from m obtain new where
    n: "svgFile gT = svgFile g @ map (mirror_line d) new" "svgFile gF = svgFile g @ new"
    by (auto simp: mirrored_def)
  have len: "row \<noteq> [] \<longrightarrow> \<not> length row \<le> length row - Suc 0"
    by (cases row) simp_all
  from mirror_svgPrint [OF n] n len show ?thesis
    by (simp add: rowBody_def Let_def globals_of_def written_svg_def lt lf eq
        split: option.split del: map_append)
qed

text \<open>
  Counterexample to C6 as stated: on line 0 the scanline \<open>[255, 0, 255, 255]\<close>
  of dimension 4 with the flag set writes the stroke from 2 to 1; run
  detection on the unreversed scanline with every coordinate mirrored gives
  the stroke from 3 to 2.
\<close>

theorem inverted_scanline_counterexample:
  "map endpoints (written_svg (init_globals 0) (globals_of
      (rowBody needLineX (''x'', ''y'') 4 (0, [255, 0, 255, 255]) (True, None, init_globals 0))))
     = [(2, 1)]
   \<and> map endpoints (map (mirror_line 4) (written_svg (init_globals 0) (globals_of
      (rowBody needLineX (''x'', ''y'') 4 (0, [255, 0, 255, 255]) (False, None, init_globals 0)))))
     = [(3, 2)]"
  by (simp add: run_defs)

section \<open>Where the code departs from its specification\<close>

text \<open>
  Claim C2 on the code. An inner run is written as \<^verbatim>\<open>(firstEndpoint, index)\<close>
  with \<^verbatim>\<open>index\<close> the first sample after the run; the last run of a scanline
  is written with \<^verbatim>\<open>index\<close> the last sample of the scanline, one less. On
  line 0 the scanline \<open>[0, 50, 50]\<close> of three samples writes the runs \<open>(0, 1)\<close>
  and \<open>(1, 2)\<close>, of total length 2, and the scanline \<open>[0]\<close> writes the run
  \<open>(0, 0)\<close> of length 0.
\<close>

theorem last_run_short:
  "map endpoints (svgFile (snd
      (generateVectors [[0, 50, 50]] needLineX (''x'', ''y'') 3 (init_globals 0))))
     = [(0, 1), (1, 2)]
   \<and> map endpoints (svgFile (snd
      (generateVectors [[0]] needLineX (''x'', ''y'') 1 (init_globals 0))))
     = [(0, 0)]"
  by (simp add: run_defs)

text \<open>
  Claim C7 on the code. The statement after the inner loop reads the loop
  variable \<^verbatim>\<open>index\<close>, which an empty scanline never assigns: an array of
  one row and no column raises \<^verbatim>\<open>UnboundLocalError\<close> in the first pass, and
  an array of no row and one column raises it in the second pass, on the one
  empty row of the swapped array. Nothing was written before.
\<close>

theorem empty_scanline_raises:
  "wellformed \<lparr> shape0 = 1, shape1 = 0, rows = [[]] \<rparr>
   \<and> main \<lparr> shape0 = 1, shape1 = 0, rows = [[]] \<rparr> 0 = (Some UnboundLocalError, init_globals 0)
   \<and> wellformed \<lparr> shape0 = 0, shape1 = 1, rows = [] \<rparr>
   \<and> main \<lparr> shape0 = 0, shape1 = 1, rows = [] \<rparr> 0 = (Some UnboundLocalError, init_globals 0)"
  by (simp add: run_defs)

text \<open>
  Claim C1 on the code. \<^verbatim>\<open>last_c\<close> and \<^verbatim>\<open>last_d\<close> hold the end of the last
  stroke as (coordinate along the scanline, scanline number): that is (x, y)
  in the first pass and (y, x) in the second, and the first stroke of the
  second pass is compared with the last stroke of the first without the
  swap. For the array below the first pass burns to \<open>(0.127, 0)\<close>; the only
  stroke of the second pass starts at \<open>x = 0\<close>, \<open>y = 0.127\<close>, another point,
  and is burnt to \<open>(0, 0.254)\<close> with no move before it.
\<close>

theorem travel_omitted_between_passes:
  "wellformed \<lparr> shape0 = 3, shape1 = 2, rows = [[0, 0], [50, 50], [50, 50]] \<rparr>
   \<and> main \<lparr> shape0 = 3, shape1 = 2, rows = [[0, 0], [50, 50], [50, 50]] \<rparr> 0 =
     (None,
      \<lparr> S_OR_F = 0, last_a = 127 / 1000, last_b = 0, last_c = 127 / 500, last_d = 0,
        svgFile =
          [\<lparr> along = ''x'', across = ''y'', pos1 = 0, line1 = 0, pos2 = 1, line2 = 0, stroke = 0 \<rparr>,
           \<lparr> along = ''y'', across = ''x'', pos1 = 1, line1 = 0, pos2 = 2, line2 = 0, stroke = 42 \<rparr>],
        gcodeFile = [BURN_GCODE 15 (127 / 1000) 0, BURN_GCODE (25 / 2) 0 (127 / 500)] \<rparr>)"
  by (simp add: run_defs)

end
